theory Spec2Isabelle
  imports Main
begin

section \<open>The FileEngine client adapter (\<^verbatim>\<open>fileengine/client.py\<close>)\<close>

text \<open>
  The class \<^verbatim>\<open>ManagedFiles\<close> wraps a gRPC stub. Every method builds an
  authentication context from the instance defaults and the per-call overrides, sends one
  or more requests through the stub and turns each response into a plain Python value.
  The embedding below follows the methods line by line. A Python \<^verbatim>\<open>str\<close>
  is a \<open>string\<close>, an optional argument whose default is \<^verbatim>\<open>None\<close> is an
  \<open>option\<close>, a \<^verbatim>\<open>dict\<close> is the list of its items in insertion order.
\<close>

subsection \<open>Python values\<close>

text \<open>
  One element of a claims list. The source inspects it with
  \<^verbatim>\<open>isinstance(claim, str)\<close>, \<^verbatim>\<open>isinstance(claim, dict)\<close> and
  \<^verbatim>\<open>isinstance(claim, tuple) and len(claim) == 2\<close>, in this order. A tuple
  is kept with all its components, whatever its length; \<open>ClaimOther\<close> stands for a value
  of any other Python type (a number, a list, \<^verbatim>\<open>None\<close>).
\<close>

datatype claim =
    ClaimStr string
  | ClaimDict "(string \<times> string) list"
  | ClaimTuple "string list"
  | ClaimOther

text \<open>Truthiness of an optional string or list: \<^verbatim>\<open>None\<close> and the empty value are falsy.\<close>

fun truthy :: "'a list option \<Rightarrow> bool" where
  "truthy None = False"
| "truthy (Some xs) = (xs \<noteq> [])"

subsection \<open>The instance and its defaults\<close>

text \<open>
  The fields of \<^verbatim>\<open>self\<close> that the identity logic reads and writes:
  \<^verbatim>\<open>self.user\<close>, \<^verbatim>\<open>self.roles\<close>, \<^verbatim>\<open>self.claims\<close>,
  \<^verbatim>\<open>self.tenant\<close>.
\<close>

record session =
  self_user :: string
  self_roles :: "string list"
  self_claims :: "claim list"
  self_tenant :: string

text \<open>
  \<^verbatim>\<open>__init__\<close>: \<^verbatim>\<open>self.user = user_name or 'user'\<close>,
  \<^verbatim>\<open>self.roles = user_roles or []\<close>, \<^verbatim>\<open>self.claims = user_claims or []\<close>,
  \<^verbatim>\<open>self.tenant = tenant\<close>. The parameters \<^verbatim>\<open>user_name\<close> and
  \<^verbatim>\<open>tenant\<close> default to the empty string, the two lists to \<^verbatim>\<open>None\<close>.
\<close>

definition init :: "string list option \<Rightarrow> string \<Rightarrow> string \<Rightarrow> claim list option \<Rightarrow> session" where
  "init user_roles user_name tenant user_claims =
     \<lparr> self_user = (if user_name \<noteq> [] then user_name else ''user''),
       self_roles = (if truthy user_roles then the user_roles else []),
       self_claims = (if truthy user_claims then the user_claims else []),
       self_tenant = tenant \<rparr>"

text \<open>
  \<^verbatim>\<open>set_user_information\<close>: three independent \<^verbatim>\<open>if x:\<close> tests, each
  guarding one assignment.
\<close>

definition set_user_information ::
  "session \<Rightarrow> string option \<Rightarrow> string list option \<Rightarrow> claim list option \<Rightarrow> session" where
  "set_user_information self user_name roles claims =
     (let s1 = (if truthy user_name then self\<lparr>self_user := the user_name\<rparr> else self);
          s2 = (if truthy roles then s1\<lparr>self_roles := the roles\<rparr> else s1);
          s3 = (if truthy claims then s2\<lparr>self_claims := the claims\<rparr> else s2)
      in s3)"

subsection \<open>The authentication context\<close>

text \<open>
  The message \<^verbatim>\<open>AuthenticationContext(user, roles, tenant, claims)\<close>. Its
  \<^verbatim>\<open>claims\<close> field is a string-to-string map, kept as the items of the Python
  \<^verbatim>\<open>dict\<close> it is filled from.
\<close>

record authentication_context =
  user :: string
  roles :: "string list"
  tenant :: string
  claims :: "(string \<times> string) list"

text \<open>
  \<^verbatim>\<open>d[k] = v\<close> on a Python \<^verbatim>\<open>dict\<close>: an existing key keeps its
  position and gets the new value, a new key goes to the end.
\<close>

fun setitem :: "string \<Rightarrow> string \<Rightarrow> (string \<times> string) list \<Rightarrow> (string \<times> string) list" where
  "setitem k v [] = [(k, v)]"
| "setitem k v ((k', v') # d) = (if k' = k then (k, v) # d else (k', v') # setitem k v d)"

text \<open>\<^verbatim>\<open>d.update(other)\<close>: every item of \<^verbatim>\<open>other\<close> is stored, in its order.\<close>

fun update_dict :: "(string \<times> string) list \<Rightarrow> (string \<times> string) list \<Rightarrow> (string \<times> string) list" where
  "update_dict d [] = d"
| "update_dict d ((k, v) # other) = update_dict (setitem k v d) other"

text \<open>
  The body of the loop over \<^verbatim>\<open>actual_claims\<close>: an \<^verbatim>\<open>if\<close> /
  \<^verbatim>\<open>elif\<close> / \<^verbatim>\<open>elif\<close> chain with no \<^verbatim>\<open>else\<close>.
\<close>

fun add_claim :: "(string \<times> string) list \<Rightarrow> claim \<Rightarrow> (string \<times> string) list" where
  "add_claim claims_map (ClaimStr c) = setitem c c claims_map"
| "add_claim claims_map (ClaimDict d) = update_dict claims_map d"
| "add_claim claims_map (ClaimTuple t) =
     (if length t = 2 then setitem (t ! 0) (t ! 1) claims_map else claims_map)"
| "add_claim claims_map ClaimOther = claims_map"

fun claims_loop :: "(string \<times> string) list \<Rightarrow> claim list \<Rightarrow> (string \<times> string) list" where
  "claims_loop claims_map [] = claims_map"
| "claims_loop claims_map (c # cs) = claims_loop (add_claim claims_map c) cs"

text \<open>
  \<^verbatim>\<open>_create_auth_context\<close>. The user is resolved with \<^verbatim>\<open>user or self.user\<close>,
  the other three fields with \<^verbatim>\<open>x if x is not None else self.x\<close>. The function has
  no \<^verbatim>\<open>raise\<close> and calls nothing that raises on these values, so it is a total
  function into contexts.
\<close>

definition create_auth_context ::
  "session \<Rightarrow> string option \<Rightarrow> string option \<Rightarrow> string list option \<Rightarrow> claim list option
     \<Rightarrow> authentication_context" where
  "create_auth_context self usr tnt rls clms =
     (let actual_user = (if truthy usr then the usr else self_user self);
          actual_tenant = (case tnt of Some t \<Rightarrow> t | None \<Rightarrow> self_tenant self);
          actual_roles = (case rls of Some r \<Rightarrow> r | None \<Rightarrow> self_roles self);
          actual_claims = (case clms of Some c \<Rightarrow> c | None \<Rightarrow> self_claims self);
          claims_map = (if actual_claims \<noteq> [] then claims_loop [] actual_claims else [])
      in \<lparr> user = actual_user, roles = actual_roles, tenant = actual_tenant,
           claims = claims_map \<rparr>)"

subsection \<open>The remote service\<close>

text \<open>
  The generated module \<^verbatim>\<open>fileservice_pb2\<close> is not part of the sources; the
  messages below carry the fields that \<^verbatim>\<open>client.py\<close> writes and reads. Every
  response has the flag \<^verbatim>\<open>success\<close>.
\<close>

datatype file_type = REGULAR_FILE | DIRECTORY | SYMLINK

record response =
  success :: bool

record list_versions_response = response +
  versions :: "string list"

record get_version_response = response +
  data :: string

record file_info =
  info_name :: string
  info_type :: file_type
  info_modified_at :: int

record stat_response = response +
  info :: file_info

record directory_entry =
  entry_uid :: string
  entry_name :: string
  entry_type :: file_type

record list_directory_response = response +
  entries :: "directory_entry list"

text \<open>The request messages, with their fields in the order of the keyword arguments.\<close>

datatype request =
    ListDirectoryRequest string authentication_context
  | ListDirectoryWithDeletedRequest string authentication_context
  | PutFileRequest string authentication_context string
  | GetVersionRequest string string authentication_context
  | ListVersionsRequest string authentication_context
  | StatRequest string authentication_context
  | MoveRequest string string authentication_context
  | RenameRequest string string authentication_context
  | RemoveDirectoryRequest string authentication_context
  | RemoveFileRequest string authentication_context

text \<open>
  A call \<^verbatim>\<open>self.stub.Method(request)\<close> either raises
  \<^verbatim>\<open>grpc.RpcError\<close> (the transport failed) or returns the response message.
\<close>

datatype 'r rpc = RpcError | Reply 'r

text \<open>
  The stub is the service seen from the client: each method takes the request and the
  state of the service and gives the outcome of the call and the next state. Nothing is
  assumed about the service; the theorems hold for every stub.
\<close>

record 'srv stub =
  ListDirectory :: "request \<Rightarrow> 'srv \<Rightarrow> list_directory_response rpc \<times> 'srv"
  ListDirectoryWithDeleted :: "request \<Rightarrow> 'srv \<Rightarrow> list_directory_response rpc \<times> 'srv"
  PutFile :: "request \<Rightarrow> 'srv \<Rightarrow> response rpc \<times> 'srv"
  GetVersion :: "request \<Rightarrow> 'srv \<Rightarrow> get_version_response rpc \<times> 'srv"
  ListVersions :: "request \<Rightarrow> 'srv \<Rightarrow> list_versions_response rpc \<times> 'srv"
  Stat :: "request \<Rightarrow> 'srv \<Rightarrow> stat_response rpc \<times> 'srv"
  Move :: "request \<Rightarrow> 'srv \<Rightarrow> response rpc \<times> 'srv"
  Rename :: "request \<Rightarrow> 'srv \<Rightarrow> response rpc \<times> 'srv"
  RemoveDirectory :: "request \<Rightarrow> 'srv \<Rightarrow> response rpc \<times> 'srv"
  RemoveFile :: "request \<Rightarrow> 'srv \<Rightarrow> response rpc \<times> 'srv"

text \<open>
  The world a method runs in: the state of the service and the requests sent so far, oldest
  first. The log is what the claims about issued calls are stated on.
\<close>

record 'srv world =
  server :: 'srv
  calls :: "request list"

definition invoke ::
  "(request \<Rightarrow> 'srv \<Rightarrow> 'r rpc \<times> 'srv) \<Rightarrow> request \<Rightarrow> 'srv world \<Rightarrow> 'r rpc \<times> 'srv world" where
  "invoke method req w =
     (case method req (server w) of
        (r, srv') \<Rightarrow> (r, \<lparr> server = srv', calls = calls w @ [req] \<rparr>))"

subsection \<open>Results of the methods\<close>

text \<open>
  Several methods return either a value or \<^verbatim>\<open>False\<close>. The exceptions that
  leave a method are \<^verbatim>\<open>NotImplementedError\<close>, raised by \<^verbatim>\<open>put\<close>,
  \<^verbatim>\<open>IndexError\<close>, raised by a list subscript out of range, and the three that
  \<^verbatim>\<open>datetime.fromtimestamp\<close> raises on a timestamp it cannot convert. Only
  \<^verbatim>\<open>grpc.RpcError\<close> is ever caught.
\<close>

datatype 'a or_false = PyFalse | Value 'a

datatype exception =
    NotImplementedError string
  | IndexError
  | OverflowError
  | OSError
  | ValueError

datatype 'a outcome = Returns 'a | Raises exception

text \<open>Python's \<^verbatim>\<open>xs[i]\<close>: a negative index counts from the end.\<close>

definition getitem :: "'a list \<Rightarrow> int \<Rightarrow> 'a option" where
  "getitem xs i =
     (if 0 \<le> i \<and> i < int (length xs) then Some (xs ! nat i)
      else if i < 0 \<and> - int (length xs) \<le> i then Some (xs ! nat (int (length xs) + i))
      else None)"

text \<open>\<^verbatim>\<open>s.split(sep)\<close> for a one-character separator.\<close>

fun split :: "char \<Rightarrow> string \<Rightarrow> string list" where
  "split sep [] = [[]]"
| "split sep (c # cs) =
     (if c = sep then [] # split sep cs
      else (case split sep cs of p # ps \<Rightarrow> (c # p) # ps | [] \<Rightarrow> [[c]]))"

text \<open>\<^verbatim>\<open>io.BytesIO\<close>: the buffer and the stream position.\<close>

datatype bytesio = BytesIO (getvalue: string) (tell: nat)

text \<open>
  A \<^verbatim>\<open>datetime\<close> is kept as the timestamp it was built from.
  \<^verbatim>\<open>datetime.fromtimestamp(t)\<close> raises \<^verbatim>\<open>OverflowError\<close>,
  \<^verbatim>\<open>OSError\<close> or \<^verbatim>\<open>ValueError\<close> when \<open>t\<close> is outside what the
  time functions of the platform and the type \<^verbatim>\<open>datetime\<close> support. Which
  timestamps these are depends on the platform, so the methods take it as the parameter
  \<open>time_error\<close>: the exception raised for a timestamp, if any.
\<close>

datatype datetime = Datetime int

definition fromtimestamp :: "(int \<Rightarrow> exception option) \<Rightarrow> int \<Rightarrow> datetime outcome" where
  "fromtimestamp time_error t =
     (case time_error t of Some e \<Rightarrow> Raises e | None \<Rightarrow> Returns (Datetime t))"

subsection \<open>Version listing and file information\<close>

text \<open>One dictionary of the list that \<^verbatim>\<open>revisions\<close> returns.\<close>

record revision =
  rev_version :: string
  rev_name :: string
  rev_user :: string

definition revisions ::
  "'srv stub \<Rightarrow> session \<Rightarrow> string \<Rightarrow> string option \<Rightarrow> string option \<Rightarrow> string list option
     \<Rightarrow> claim list option \<Rightarrow> 'srv world \<Rightarrow> revision list \<times> 'srv world" where
  "revisions stub self uid usr tnt rls clms w =
     (let auth_context = create_auth_context self usr tnt rls clms
      in case invoke (ListVersions stub) (ListVersionsRequest uid auth_context) w of
           (RpcError, w') \<Rightarrow> ([], w')
         | (Reply response, w') \<Rightarrow>
             if success response
             then (map (\<lambda>version_timestamp.
                          \<lparr> rev_version = version_timestamp,
                            rev_name = (if CHR ''-'' \<in> set uid then last (split CHR ''-'' uid) else uid),
                            rev_user = user auth_context \<rparr>)
                       (versions response), w')
             else ([], w'))"

text \<open>
  \<^verbatim>\<open>get_file_mtime\<close>: the conversion of the timestamp stands inside the
  \<^verbatim>\<open>try\<close> block, whose handler catches the transport error alone.
\<close>

definition get_file_mtime ::
  "(int \<Rightarrow> exception option) \<Rightarrow> 'srv stub \<Rightarrow> session \<Rightarrow> string \<Rightarrow> string option \<Rightarrow> string option
     \<Rightarrow> string list option \<Rightarrow> claim list option \<Rightarrow> 'srv world
     \<Rightarrow> datetime option outcome \<times> 'srv world" where
  "get_file_mtime time_error stub self uid usr tnt rls clms w =
     (let auth_context = create_auth_context self usr tnt rls clms
      in case invoke (Stat stub) (StatRequest uid auth_context) w of
           (RpcError, w') \<Rightarrow> (Returns None, w')
         | (Reply response, w') \<Rightarrow>
             if success response
             then (case fromtimestamp time_error (info_modified_at (info response)) of
                     Raises e \<Rightarrow> (Raises e, w')
                   | Returns mtime \<Rightarrow> (Returns (Some mtime), w'))
             else (Returns None, w'))"

definition file_name ::
  "'srv stub \<Rightarrow> session \<Rightarrow> string \<Rightarrow> string option \<Rightarrow> string option \<Rightarrow> string list option
     \<Rightarrow> claim list option \<Rightarrow> 'srv world \<Rightarrow> string list \<times> 'srv world" where
  "file_name stub self uid usr tnt rls clms w =
     (let auth_context = create_auth_context self usr tnt rls clms
      in case invoke (Stat stub) (StatRequest uid auth_context) w of
           (RpcError, w') \<Rightarrow> ([], w')
         | (Reply response, w') \<Rightarrow>
             if success response then ([info_name (info response)], w') else ([], w'))"

subsection \<open>Directory listing\<close>

text \<open>
  One dictionary of the list that \<^verbatim>\<open>dir\<close> returns. The keys
  \<^verbatim>\<open>uploading_user\<close>, \<^verbatim>\<open>version\<close> and \<^verbatim>\<open>mtime\<close> are
  set only for a regular file that has revisions (\<open>None\<close>: the key is absent); the value
  stored under \<^verbatim>\<open>mtime\<close> may itself be \<^verbatim>\<open>None\<close>.
\<close>

record dir_item =
  item_uid :: string
  item_name :: string
  item_creator :: string
  item_is_container :: string
  item_uploading_user :: "string option"
  item_version :: "string option"
  item_mtime :: "datetime option option"

text \<open>\<^verbatim>\<open>list(auth_context.claims.keys())\<close>, passed on as a claims list.\<close>

definition claim_keys :: "authentication_context \<Rightarrow> claim list" where
  "claim_keys auth_context = map ClaimStr (map fst (claims auth_context))"

text \<open>
  The loop \<^verbatim>\<open>for entry in response.entries\<close> of \<^verbatim>\<open>dir\<close>, with the list
  \<^verbatim>\<open>result\<close> built so far. The two nested calls catch the transport error
  themselves; an exception of the timestamp conversion ends the loop and the method.
\<close>

fun dir_entries ::
  "(int \<Rightarrow> exception option) \<Rightarrow> 'srv stub \<Rightarrow> session \<Rightarrow> authentication_context
     \<Rightarrow> directory_entry list \<Rightarrow> dir_item list \<Rightarrow> 'srv world
     \<Rightarrow> dir_item list outcome \<times> 'srv world" where
  "dir_entries time_error stub self auth_context [] result w = (Returns result, w)"
| "dir_entries time_error stub self auth_context (entry # rest) result w =
     (let item = \<lparr> item_uid = entry_uid entry,
                   item_name = entry_name entry,
                   item_creator = user auth_context,
                   item_is_container = (if entry_type entry = DIRECTORY then ''True'' else ''False''),
                   item_uploading_user = None,
                   item_version = None,
                   item_mtime = None \<rparr>
      in if entry_type entry = REGULAR_FILE
         then (case revisions stub self (entry_uid entry) (Some (user auth_context))
                      (Some (tenant auth_context)) (Some (roles auth_context))
                      (Some (claim_keys auth_context)) w of
                 ([], w1) \<Rightarrow> dir_entries time_error stub self auth_context rest (result @ [item]) w1
               | (latest # older, w1) \<Rightarrow>
                   (case get_file_mtime time_error stub self (entry_uid entry)
                           (Some (user auth_context)) (Some (tenant auth_context))
                           (Some (roles auth_context)) (Some (claim_keys auth_context)) w1 of
                      (Raises e, w2) \<Rightarrow> (Raises e, w2)
                    | (Returns mtime, w2) \<Rightarrow>
                        dir_entries time_error stub self auth_context rest
                          (result @ [item\<lparr> item_uploading_user := Some (user auth_context),
                                           item_version := Some (rev_version latest),
                                           item_mtime := Some mtime \<rparr>]) w2))
         else dir_entries time_error stub self auth_context rest (result @ [item]) w)"

definition dir ::
  "(int \<Rightarrow> exception option) \<Rightarrow> 'srv stub \<Rightarrow> session \<Rightarrow> string \<Rightarrow> bool \<Rightarrow> string option
     \<Rightarrow> string option \<Rightarrow> string list option \<Rightarrow> claim list option \<Rightarrow> 'srv world
     \<Rightarrow> dir_item list or_false outcome \<times> 'srv world" where
  "dir time_error stub self uid show_deleted usr tnt rls clms w =
     (let auth_context = create_auth_context self usr tnt rls clms
      in case (if show_deleted
               then invoke (ListDirectoryWithDeleted stub)
                      (ListDirectoryWithDeletedRequest uid auth_context) w
               else invoke (ListDirectory stub) (ListDirectoryRequest uid auth_context) w) of
           (RpcError, w') \<Rightarrow> (Returns PyFalse, w')
         | (Reply response, w') \<Rightarrow>
             if \<not> success response then (Returns PyFalse, w')
             else (case dir_entries time_error stub self auth_context (entries response) [] w' of
                     (Raises e, w'') \<Rightarrow> (Raises e, w'')
                   | (Returns result, w'') \<Rightarrow> (Returns (Value result), w'')))"

subsection \<open>Writing and reading content\<close>

text \<open>
  The argument \<^verbatim>\<open>payload\<close> of \<^verbatim>\<open>put\<close>: \<^verbatim>\<open>None\<close>, a
  \<^verbatim>\<open>str\<close> or \<^verbatim>\<open>bytes\<close>. A \<open>string\<close> is a list of bytes, so a
  \<^verbatim>\<open>str\<close> is held as its UTF-8 encoding and \<^verbatim>\<open>encode('utf-8')\<close> leaves
  the list as it is.
\<close>

datatype payload = PayloadNone | PayloadStr string | PayloadBytes string

text \<open>
  \<^verbatim>\<open>put\<close>. The value of \<^verbatim>\<open>time.time()\<close> at the moment of the return is the
  parameter \<open>now\<close>.
\<close>

definition put ::
  "'srv stub \<Rightarrow> session \<Rightarrow> string \<Rightarrow> payload \<Rightarrow> bool \<Rightarrow> string option \<Rightarrow> string option
     \<Rightarrow> string list option \<Rightarrow> claim list option \<Rightarrow> 't \<Rightarrow> 'srv world
     \<Rightarrow> 't or_false outcome \<times> 'srv world" where
  "put stub self uid payload return_open usr tnt rls clms now w =
     (if return_open
      then (Raises (NotImplementedError ''return_open parameter not supported in gRPC implementation''), w)
      else
        let payload1 = (case payload of PayloadNone \<Rightarrow> PayloadBytes [] | _ \<Rightarrow> payload);
            payload2 = (case payload1 of PayloadStr s \<Rightarrow> PayloadBytes s | _ \<Rightarrow> payload1);
            bytes = (case payload2 of PayloadBytes b \<Rightarrow> b | _ \<Rightarrow> []);
            auth_context = create_auth_context self usr tnt rls clms
        in case invoke (PutFile stub) (PutFileRequest uid auth_context bytes) w of
             (RpcError, w') \<Rightarrow> (Returns PyFalse, w')
           | (Reply response, w') \<Rightarrow>
               if success response then (Returns (Value now), w') else (Returns PyFalse, w'))"

text \<open>
  \<^verbatim>\<open>get\<close>; the local list \<^verbatim>\<open>versions\<close> is \<open>version_list\<close> here.
  The subscript \<^verbatim>\<open>versions[back]\<close> stands before the
  \<^verbatim>\<open>try\<close> block, so its \<^verbatim>\<open>IndexError\<close> leaves the method. The buffer is
  written once and rewound with \<^verbatim>\<open>seek(0)\<close>.
\<close>

definition get ::
  "'srv stub \<Rightarrow> session \<Rightarrow> string \<Rightarrow> int \<Rightarrow> string option \<Rightarrow> string option
     \<Rightarrow> string list option \<Rightarrow> claim list option \<Rightarrow> 'srv world
     \<Rightarrow> bytesio or_false outcome \<times> 'srv world" where
  "get stub self uid back usr tnt rls clms w =
     (let auth_context = create_auth_context self usr tnt rls clms
      in case revisions stub self uid (Some (user auth_context)) (Some (tenant auth_context))
                (Some (roles auth_context)) (Some (claim_keys auth_context)) w of
           (version_list, w1) \<Rightarrow>
             if version_list = [] \<or> int (length version_list) \<le> back then (Returns PyFalse, w1)
             else (case getitem version_list back of
                     None \<Rightarrow> (Raises IndexError, w1)
                   | Some v \<Rightarrow>
                       (case invoke (GetVersion stub)
                               (GetVersionRequest uid (rev_version v) auth_context) w1 of
                          (RpcError, w2) \<Rightarrow> (Returns PyFalse, w2)
                        | (Reply response, w2) \<Rightarrow>
                            if success response
                            then (Returns (Value (BytesIO (data response) 0)), w2)
                            else (Returns PyFalse, w2))))"

subsection \<open>Moving, renaming and removing\<close>

definition rename ::
  "'srv stub \<Rightarrow> session \<Rightarrow> string \<Rightarrow> string \<Rightarrow> string option \<Rightarrow> string option
     \<Rightarrow> string list option \<Rightarrow> claim list option \<Rightarrow> 'srv world \<Rightarrow> bool \<times> 'srv world" where
  "rename stub self uid new_name usr tnt rls clms w =
     (let auth_context = create_auth_context self usr tnt rls clms
      in case invoke (Rename stub) (RenameRequest uid new_name auth_context) w of
           (RpcError, w') \<Rightarrow> (False, w')
         | (Reply response, w') \<Rightarrow> (success response, w'))"

text \<open>
  \<^verbatim>\<open>move\<close>: the test is \<^verbatim>\<open>response.success and new_name\<close>, so a new name
  that is \<^verbatim>\<open>None\<close> or empty asks for no renaming. The renaming gets the overrides of
  the call, not the context built from them.
\<close>

definition move ::
  "'srv stub \<Rightarrow> session \<Rightarrow> string \<Rightarrow> string \<Rightarrow> string option \<Rightarrow> string option \<Rightarrow> string option
     \<Rightarrow> string list option \<Rightarrow> claim list option \<Rightarrow> 'srv world \<Rightarrow> bool \<times> 'srv world" where
  "move stub self source_uid destination_uid new_name usr tnt rls clms w =
     (let auth_context = create_auth_context self usr tnt rls clms
      in case invoke (Move stub) (MoveRequest source_uid destination_uid auth_context) w of
           (RpcError, w') \<Rightarrow> (False, w')
         | (Reply response, w') \<Rightarrow>
             if success response \<and> truthy new_name
             then rename stub self source_uid (the new_name) usr tnt rls clms w'
             else (success response, w'))"

text \<open>
  \<^verbatim>\<open>remove\<close>: one \<^verbatim>\<open>try\<close> block around the metadata call and the removal
  call. The directory branch needs a successful response of type
  \<^verbatim>\<open>DIRECTORY\<close>; everything else that was answered takes the file branch.
\<close>

definition remove ::
  "'srv stub \<Rightarrow> session \<Rightarrow> string \<Rightarrow> string option \<Rightarrow> string option \<Rightarrow> string list option
     \<Rightarrow> claim list option \<Rightarrow> 'srv world \<Rightarrow> bool \<times> 'srv world" where
  "remove stub self uid usr tnt rls clms w =
     (let auth_context = create_auth_context self usr tnt rls clms
      in case invoke (Stat stub) (StatRequest uid auth_context) w of
           (RpcError, w1) \<Rightarrow> (False, w1)
         | (Reply info_resp, w1) \<Rightarrow>
             (case (if success info_resp \<and> info_type (info info_resp) = DIRECTORY
                    then invoke (RemoveDirectory stub) (RemoveDirectoryRequest uid auth_context) w1
                    else invoke (RemoveFile stub) (RemoveFileRequest uid auth_context) w1) of
                (RpcError, w2) \<Rightarrow> (False, w2)
              | (Reply response, w2) \<Rightarrow> (success response, w2)))"

subsection \<open>Failure of a call\<close>

text \<open>
  The two failure tiers of a remote call: the transport failed, or the call was answered
  with the flag \<^verbatim>\<open>success\<close> false.
\<close>

fun failed :: "('a response_scheme) rpc \<Rightarrow> bool" where
  "failed RpcError = True"
| "failed (Reply response) = (\<not> success response)"

subsection \<open>The claims map as the specification words it\<close>

text \<open>
  The specification describes the normalisation of a claims list on a closed set of three
  variants and on an abstract map: start with the empty map and, in list order, insert a
  plain string under itself, merge all entries of a mapping, insert a pair as key and
  value. This second definition follows those words; the theorem on the claims map
  compares it with \<open>claims_loop\<close>, which follows the source.
\<close>

datatype spec_claim =
    PlainString string
  | KeyValueMap "string \<rightharpoonup> string"
  | KeyValuePair string string

fun spec_insert :: "(string \<rightharpoonup> string) \<Rightarrow> spec_claim \<Rightarrow> (string \<rightharpoonup> string)" where
  "spec_insert m (PlainString s) = m(s \<mapsto> s)"
| "spec_insert m (KeyValueMap d) = m ++ d"
| "spec_insert m (KeyValuePair k v) = m(k \<mapsto> v)"

definition spec_claims_map :: "spec_claim list \<Rightarrow> (string \<rightharpoonup> string)" where
  "spec_claims_map cs = foldl spec_insert Map.empty cs"

text \<open>
  The variant a Python value belongs to, if any. The items of a \<^verbatim>\<open>dict\<close> have
  distinct keys; a tuple is a pair when it has two components.
\<close>

fun shape :: "claim \<Rightarrow> spec_claim option" where
  "shape (ClaimStr s) = Some (PlainString s)"
| "shape (ClaimDict d) = (if distinct (map fst d) then Some (KeyValueMap (map_of d)) else None)"
| "shape (ClaimTuple t) = (case t of [k, v] \<Rightarrow> Some (KeyValuePair k v) | _ \<Rightarrow> None)"
| "shape ClaimOther = None"

fun shapes :: "claim list \<Rightarrow> spec_claim list option" where
  "shapes [] = Some []"
| "shapes (c # cs) =
     (case shape c of
        None \<Rightarrow> None
      | Some sc \<Rightarrow> (case shapes cs of None \<Rightarrow> None | Some scs \<Rightarrow> Some (sc # scs)))"

text \<open>The elements that one of the three branches of the loop accepts.\<close>

fun recognised :: "claim \<Rightarrow> bool" where
  "recognised (ClaimStr s) = True"
| "recognised (ClaimDict d) = True"
| "recognised (ClaimTuple t) = (length t = 2)"
| "recognised ClaimOther = False"

subsection \<open>Concrete instances and services\<close>

text \<open>The instance that the test suite builds in its \<^verbatim>\<open>setUp\<close>.\<close>

definition test_session :: session where
  "test_session =
     init (Some [''user'']) ''test_user'' ''test_tenant'' (Some [ClaimStr ''read'', ClaimStr ''write''])"

text \<open>A service that cannot be reached: every call raises the transport error.\<close>

definition unreachable :: "unit stub" where
  "unreachable =
     \<lparr> ListDirectory = (\<lambda>req srv. (RpcError, srv)),
       ListDirectoryWithDeleted = (\<lambda>req srv. (RpcError, srv)),
       PutFile = (\<lambda>req srv. (RpcError, srv)),
       GetVersion = (\<lambda>req srv. (RpcError, srv)),
       ListVersions = (\<lambda>req srv. (RpcError, srv)),
       Stat = (\<lambda>req srv. (RpcError, srv)),
       Move = (\<lambda>req srv. (RpcError, srv)),
       Rename = (\<lambda>req srv. (RpcError, srv)),
       RemoveDirectory = (\<lambda>req srv. (RpcError, srv)),
       RemoveFile = (\<lambda>req srv. (RpcError, srv)) \<rparr>"

text \<open>
  A small service. Every file has the two versions \<^verbatim>\<open>v2\<close> (the latest) and
  \<^verbatim>\<open>v1\<close>, and the content of a version is its identifier. The identifier
  \<^verbatim>\<open>d\<close> is a directory, \<^verbatim>\<open>gone\<close> is unknown to the metadata lookup,
  everything else is a regular file. Listing a directory and renaming are refused; moving
  and removing succeed.
\<close>

definition stat_of :: "request \<Rightarrow> stat_response rpc" where
  "stat_of req =
     (case req of
        StatRequest uid auth \<Rightarrow>
          Reply \<lparr> success = (uid \<noteq> ''gone''),
                  info = \<lparr> info_name = uid,
                           info_type = (if uid = ''d'' then DIRECTORY else REGULAR_FILE),
                           info_modified_at = 0 \<rparr> \<rparr>
      | _ \<Rightarrow> RpcError)"

definition version_of :: "request \<Rightarrow> get_version_response rpc" where
  "version_of req =
     (case req of
        GetVersionRequest uid version_timestamp auth \<Rightarrow>
          Reply \<lparr> success = True, data = version_timestamp \<rparr>
      | _ \<Rightarrow> RpcError)"

definition small_service :: "unit stub" where
  "small_service =
     \<lparr> ListDirectory = (\<lambda>req srv. (Reply \<lparr> success = False, entries = [] \<rparr>, srv)),
       ListDirectoryWithDeleted = (\<lambda>req srv. (Reply \<lparr> success = False, entries = [] \<rparr>, srv)),
       PutFile = (\<lambda>req srv. (Reply \<lparr> success = True \<rparr>, srv)),
       GetVersion = (\<lambda>req srv. (version_of req, srv)),
       ListVersions = (\<lambda>req srv. (Reply \<lparr> success = True, versions = [''v2'', ''v1''] \<rparr>, srv)),
       Stat = (\<lambda>req srv. (stat_of req, srv)),
       Move = (\<lambda>req srv. (Reply \<lparr> success = True \<rparr>, srv)),
       Rename = (\<lambda>req srv. (Reply \<lparr> success = False \<rparr>, srv)),
       RemoveDirectory = (\<lambda>req srv. (Reply \<lparr> success = True \<rparr>, srv)),
       RemoveFile = (\<lambda>req srv. (Reply \<lparr> success = True \<rparr>, srv)) \<rparr>"

text \<open>A platform whose time functions convert every timestamp.\<close>

definition converts_all :: "int \<Rightarrow> exception option" where
  "converts_all t = None"

text \<open>The world before the first call.\<close>

definition start :: "unit world" where
  "start = \<lparr> server = (), calls = [] \<rparr>"

section \<open>Properties of the authentication context\<close>

subsection \<open>Dictionaries as maps\<close>

lemma map_of_setitem: "map_of (setitem k v d) = (map_of d)(k \<mapsto> v)"
  by (induction d) auto

lemma keys_setitem: "fst ` set (setitem k v d) = insert k (fst ` set d)"
  by (induction d) force+

lemma distinct_setitem: "distinct (map fst d) \<Longrightarrow> distinct (map fst (setitem k v d))"
  by (induction d) (auto simp: keys_setitem)

lemma map_of_update_dict:
  "distinct (map fst other) \<Longrightarrow> map_of (update_dict d other) = map_of d ++ map_of other"
proof (induction other arbitrary: d)
  case Nil
  then show ?case by simp
next
  case (Cons p other)
  obtain k v where p: "p = (k, v)" by (cases p)
  from Cons.prems p have k: "k \<notin> dom (map_of other)" and dist: "distinct (map fst other)"
    by (auto simp: dom_map_of_conv_image_fst)
  have "map_of (update_dict d ((k, v) # other)) = (map_of d)(k \<mapsto> v) ++ map_of other"
    by (simp only: update_dict.simps Cons.IH [OF dist] map_of_setitem)
  also have "\<dots> = (map_of d ++ map_of other)(k \<mapsto> v)"
    using k by (simp add: map_add_upd_left)
  also have "\<dots> = map_of d ++ map_of ((k, v) # other)"
    by simp
  finally show ?case unfolding p .
qed

lemma distinct_update_dict: "distinct (map fst d) \<Longrightarrow> distinct (map fst (update_dict d other))"
  by (induction other arbitrary: d) (auto simp: distinct_setitem)

lemma distinct_add_claim: "distinct (map fst d) \<Longrightarrow> distinct (map fst (add_claim d c))"
  by (cases c) (auto simp: distinct_setitem distinct_update_dict)

lemma distinct_claims_loop: "distinct (map fst d) \<Longrightarrow> distinct (map fst (claims_loop d cs))"
  by (induction cs arbitrary: d) (auto simp: distinct_add_claim)

lemma map_of_add_claim:
  "shape c = Some sc \<Longrightarrow> map_of (add_claim d c) = spec_insert (map_of d) sc"
  by (cases c) (auto simp: map_of_setitem map_of_update_dict split: if_splits list.splits)

lemma map_of_claims_loop:
  "shapes cs = Some scs \<Longrightarrow> map_of (claims_loop d cs) = foldl spec_insert (map_of d) scs"
proof (induction cs arbitrary: d scs)
  case Nil
  then show ?case by simp
next
  case (Cons c cs)
  then show ?case
    by (auto simp: map_of_add_claim split: option.splits)
qed

lemma claims_resolved:
  "claims (create_auth_context self usr tnt rls clms) =
     claims_loop [] (case clms of Some c \<Rightarrow> c | None \<Rightarrow> self_claims self)"
  by (simp add: create_auth_context_def Let_def)

lemma add_claim_unrecognised: "\<not> recognised c \<Longrightarrow> add_claim d c = d"
  by (cases c) auto

lemma claims_loop_filter: "claims_loop d (filter recognised cs) = claims_loop d cs"
  by (induction cs arbitrary: d) (auto simp: add_claim_unrecognised)

text \<open>The claims map of a context never holds a key twice.\<close>

lemma claims_keys_unique: "distinct (map fst (claims (create_auth_context self usr tnt rls clms)))"
  by (simp add: claims_resolved distinct_claims_loop)

text \<open>On a collision the later position of the list decides.\<close>

lemma later_position_wins:
  "map_of (claims (create_auth_context test_session None None None
       (Some [ClaimStr ''k'', ClaimDict [(''k'', ''v'')], ClaimTuple [''k'', ''w'']]))) ''k'' = Some ''w''"
  by (simp add: create_auth_context_def)

subsection \<open>Normalisation of the claims list\<close>

text \<open>
  Claim C1. For every supplied claims list whose elements are plain strings, mappings and
  two-element pairs, the claims map of the context that \<^verbatim>\<open>_create_auth_context\<close>
  builds is the map obtained by starting empty and, in list order, inserting a string under
  itself, merging the entries of a mapping and inserting a pair as key and value; a later
  position overrides an earlier one.
\<close>

theorem claims_normalisation:
  assumes "shapes cl = Some scl"
  shows "map_of (claims (create_auth_context self usr tnt rls (Some cl))) = spec_claims_map scl"
  using map_of_claims_loop [OF assms, of "[]"]
  by (simp add: claims_resolved spec_claims_map_def)

text \<open>
  The example of the specification: the list \<^verbatim>\<open>["a", {"k": "v"}, ("x", "y")]\<close>
  gives the map \<^verbatim>\<open>{"a": "a", "k": "v", "x": "y"}\<close>.
\<close>

theorem claims_normalisation_example:
  "shapes [ClaimStr ''a'', ClaimDict [(''k'', ''v'')], ClaimTuple [''x'', ''y'']]
     = Some [PlainString ''a'', KeyValueMap (map_of [(''k'', ''v'')]), KeyValuePair ''x'' ''y'']
   \<and> map_of (claims (create_auth_context test_session None None None
        (Some [ClaimStr ''a'', ClaimDict [(''k'', ''v'')], ClaimTuple [''x'', ''y'']])))
     = [''a'' \<mapsto> ''a'', ''k'' \<mapsto> ''v'', ''x'' \<mapsto> ''y'']"
proof -
  have h: "shapes [ClaimStr ''a'', ClaimDict [(''k'', ''v'')], ClaimTuple [''x'', ''y'']]
     = Some [PlainString ''a'', KeyValueMap (map_of [(''k'', ''v'')]), KeyValuePair ''x'' ''y'']"
    by simp
  show ?thesis
    using claims_normalisation [OF h, of test_session None None None] h
    by (simp add: spec_claims_map_def)
qed

subsection \<open>Resolution of the overrides\<close>

text \<open>
  Claim C2 says that every supplied override, an empty string included, is the resolved
  field. The user is resolved with \<^verbatim>\<open>user or self.user\<close>: for the instance of the
  test suite, the override \<^verbatim>\<open>user=""\<close> resolves to the default
  \<^verbatim>\<open>test_user\<close>, not to the supplied empty string.
\<close>

theorem override_empty_user_counterexample:
  "user (create_auth_context test_session (Some '''') None None None) = ''test_user''
   \<and> user (create_auth_context test_session (Some '''') None None None) \<noteq> ''''"
  by (simp add: create_auth_context_def test_session_def init_def)

text \<open>
  Claim C2, amended. For tenant, roles and claims an omitted override resolves to the
  default of the instance and a supplied one, empty or not, to the supplied value; the
  resolved claims are the normalised list. For the user an omitted or empty override
  resolves to the default and a non-empty one to the supplied value.
\<close>

theorem override_resolution:
  "tenant (create_auth_context self usr None rls clms) = self_tenant self
   \<and> tenant (create_auth_context self usr (Some t) rls clms) = t
   \<and> roles (create_auth_context self usr tnt None clms) = self_roles self
   \<and> roles (create_auth_context self usr tnt (Some r) clms) = r
   \<and> claims (create_auth_context self usr tnt rls None) = claims_loop [] (self_claims self)
   \<and> claims (create_auth_context self usr tnt rls (Some c)) = claims_loop [] c
   \<and> user (create_auth_context self None tnt rls clms) = self_user self
   \<and> user (create_auth_context self (Some '''') tnt rls clms) = self_user self
   \<and> (u \<noteq> '''' \<longrightarrow> user (create_auth_context self (Some u) tnt rls clms) = u)"
  by (simp add: create_auth_context_def Let_def)

text \<open>
  The example of the specification is among the instances: the default roles are
  \<^verbatim>\<open>["user"]\<close> and the override \<^verbatim>\<open>roles=[]\<close> resolves to the empty list.
\<close>

theorem override_resolution_example:
  "tenant (create_auth_context test_session None None None None) = ''test_tenant''
   \<and> tenant (create_auth_context test_session None (Some '''') None None) = ''''
   \<and> roles (create_auth_context test_session None None None None) = [''user'']
   \<and> roles (create_auth_context test_session None None (Some []) None) = []
   \<and> claims (create_auth_context test_session None None None None)
        = [(''read'', ''read''), (''write'', ''write'')]
   \<and> claims (create_auth_context test_session None None None (Some [])) = []
   \<and> user (create_auth_context test_session None None None None) = ''test_user''
   \<and> user (create_auth_context test_session (Some '''') None None None) = ''test_user''
   \<and> ''other_user'' \<noteq> ''''
   \<and> user (create_auth_context test_session (Some ''other_user'') None None None) = ''other_user''"
  using override_resolution [where self = test_session and u = "''other_user''"]
  by (simp add: test_session_def init_def)

subsection \<open>Elements of another shape\<close>

text \<open>
  Claim C3 says that an element that is neither a string, nor a mapping, nor a two-element
  pair makes \<^verbatim>\<open>_create_auth_context\<close> fail with \<^verbatim>\<open>InvalidClaimShape\<close>. The
  chain of tests has no \<^verbatim>\<open>else\<close>: with a value of another type and a one-element
  tuple in the list, the function returns the context built from the remaining element.
\<close>

theorem unrecognised_claim_counterexample:
  "create_auth_context test_session None None None
       (Some [ClaimOther, ClaimTuple [''x''], ClaimStr ''a''])
     = \<lparr> user = ''test_user'', roles = [''user''], tenant = ''test_tenant'',
         claims = [(''a'', ''a'')] \<rparr>"
  by (simp add: create_auth_context_def test_session_def init_def)

text \<open>
  Claim C3, amended. An element that is neither a string, nor a mapping, nor a two-element
  pair is skipped without any error: the context is the one built from the list without
  such elements.
\<close>

theorem unrecognised_claim_skipped:
  "create_auth_context self usr tnt rls (Some cl)
     = create_auth_context self usr tnt rls (Some (filter recognised cl))"
proof -
  have loop: "(if xs \<noteq> [] then claims_loop [] xs else []) = claims_loop [] xs" for xs
    by simp
  show ?thesis
    unfolding create_auth_context_def Let_def option.case loop claims_loop_filter ..
qed

subsection \<open>Changing the defaults\<close>

text \<open>
  Claim C10. \<^verbatim>\<open>set_user_information\<close> updates a default only when the argument is
  truthy: an empty user name, an empty list of roles or an empty list of claims leaves the
  field as it was, as an omitted argument does, and every field that is not updated keeps
  its value.
\<close>

theorem set_user_information_truthy:
  "self_user (set_user_information self user_name rls clms)
      = (if truthy user_name then the user_name else self_user self)
   \<and> self_roles (set_user_information self user_name rls clms)
      = (if truthy rls then the rls else self_roles self)
   \<and> self_claims (set_user_information self user_name rls clms)
      = (if truthy clms then the clms else self_claims self)
   \<and> self_tenant (set_user_information self user_name rls clms) = self_tenant self
   \<and> set_user_information self (Some '''') (Some []) (Some []) = self
   \<and> set_user_information self None None None = self"
  by (simp add: set_user_information_def Let_def)

section \<open>Properties of the remote operations\<close>

subsection \<open>The log of calls\<close>

lemma invoke_eq:
  "invoke method req w = (fst (method req (server w)),
      \<lparr> server = snd (method req (server w)), calls = calls w @ [req] \<rparr>)"
  by (simp add: invoke_def split: prod.splits)

lemma invoke_calls: "invoke method req w = (r, w') \<Longrightarrow> calls w' = calls w @ [req]"
  by (auto simp: invoke_eq)

lemma revisions_calls:
  "revisions stub self uid usr tnt rls clms w = (vs, w')
     \<Longrightarrow> calls w' = calls w @ [ListVersionsRequest uid (create_auth_context self usr tnt rls clms)]"
  by (auto simp: revisions_def Let_def invoke_eq split: rpc.splits if_splits)

lemma rename_calls:
  "rename stub self uid new_name usr tnt rls clms w = (b, w')
     \<Longrightarrow> calls w' = calls w @ [RenameRequest uid new_name (create_auth_context self usr tnt rls clms)]"
  by (auto simp: rename_def Let_def invoke_eq split: rpc.splits)

lemma getitem_nonneg: "0 \<le> i \<Longrightarrow> i < int (length xs) \<Longrightarrow> getitem xs i = Some (xs ! nat i)"
  by (simp add: getitem_def)

lemma getitem_below: "i < - int (length xs) \<Longrightarrow> getitem xs i = None"
  by (simp add: getitem_def)

lemma getitem_last_of_two: "getitem [x, y] (- 1) = Some y"
  by (simp add: getitem_def)

lemma getitem_below_two: "getitem [x, y] (- 3) = None"
  by (simp add: getitem_def)
lemma start_calls: "calls start = []" "server start = ()"
  by (simp_all add: start_def)
lemma small_service_revisions:
  "revisions small_service self uid usr tnt rls clms w =
     (map (\<lambda>v. \<lparr> rev_version = v,
                  rev_name = (if CHR ''-'' \<in> set uid then last (split CHR ''-'' uid) else uid),
                  rev_user = user (create_auth_context self usr tnt rls clms) \<rparr>) [''v2'', ''v1''],
      \<lparr> server = (), calls = calls w @ [ListVersionsRequest uid (create_auth_context self usr tnt rls clms)] \<rparr>)"
  by (simp add: revisions_def Let_def invoke_eq small_service_def)

lemma test_context:
  "create_auth_context test_session None None None None =
     \<lparr> user = ''test_user'', roles = [''user''], tenant = ''test_tenant'',
       claims = [(''read'', ''read''), (''write'', ''write'')] \<rparr>"
  by (simp add: create_auth_context_def test_session_def init_def)

lemma test_context_again:
  "create_auth_context test_session (Some ''test_user'') (Some ''test_tenant'') (Some [''user''])
       (Some [ClaimStr ''read'', ClaimStr ''write'']) =
     \<lparr> user = ''test_user'', roles = [''user''], tenant = ''test_tenant'',
       claims = [(''read'', ''read''), (''write'', ''write'')] \<rparr>"
  by (simp add: create_auth_context_def test_session_def init_def)

subsection \<open>Reading content with an offset\<close>

text \<open>
  Offsets that count versions back. For every call to \<^verbatim>\<open>get\<close> with an offset
  \<open>back\<close> that is not negative (\<open>0\<close> is the latest revision, \<open>1\<close> the one before,
  and so on): the revision list is obtained first; if the number of revisions is at most
  \<open>back\<close>, the call returns \<^verbatim>\<open>False\<close> and the revision listing is the only
  request sent; otherwise exactly one content fetch follows, for the version at index
  \<open>back\<close> of the list, and its data is returned in a buffer positioned at zero when the
  fetch succeeds, \<^verbatim>\<open>False\<close> when it does not.
\<close>

theorem get_versions_back:
  assumes nonneg: "0 \<le> back"
    and auth: "auth = create_auth_context self usr tnt rls clms"
    and revs: "revisions stub self uid (Some (user auth)) (Some (tenant auth)) (Some (roles auth))
                 (Some (claim_keys auth)) w = (version_list, w1)"
  shows "(int (length version_list) \<le> back \<longrightarrow>
            get stub self uid back usr tnt rls clms w = (Returns PyFalse, w1)
            \<and> calls w1 = calls w @ [ListVersionsRequest uid
                  (create_auth_context self (Some (user auth)) (Some (tenant auth))
                     (Some (roles auth)) (Some (claim_keys auth)))])
       \<and> (back < int (length version_list) \<longrightarrow>
            get stub self uid back usr tnt rls clms w =
              (case invoke (GetVersion stub)
                      (GetVersionRequest uid (rev_version (version_list ! nat back)) auth) w1 of
                 (RpcError, w2) \<Rightarrow> (Returns PyFalse, w2)
               | (Reply response, w2) \<Rightarrow>
                   (if success response then Returns (Value (BytesIO (data response) 0))
                    else Returns PyFalse, w2))
            \<and> calls (snd (get stub self uid back usr tnt rls clms w)) =
                calls w @ [ListVersionsRequest uid
                  (create_auth_context self (Some (user auth)) (Some (tenant auth))
                     (Some (roles auth)) (Some (claim_keys auth))),
                 GetVersionRequest uid (rev_version (version_list ! nat back)) auth])"
proof (intro conjI impI)
  assume out: "int (length version_list) \<le> back"
  show "get stub self uid back usr tnt rls clms w = (Returns PyFalse, w1)"
    using out revs auth by (simp add: get_def Let_def)
  show "calls w1 = calls w @ [ListVersionsRequest uid
                  (create_auth_context self (Some (user auth)) (Some (tenant auth))
                     (Some (roles auth)) (Some (claim_keys auth)))]"
    using revisions_calls [OF revs] .
next
  assume inr: "back < int (length version_list)"
  from inr nonneg have ne: "version_list \<noteq> []" by auto
  have item: "getitem version_list back = Some (version_list ! nat back)"
    using getitem_nonneg [OF nonneg inr] .
  show eq: "get stub self uid back usr tnt rls clms w =
              (case invoke (GetVersion stub)
                      (GetVersionRequest uid (rev_version (version_list ! nat back)) auth) w1 of
                 (RpcError, w2) \<Rightarrow> (Returns PyFalse, w2)
               | (Reply response, w2) \<Rightarrow>
                   (if success response then Returns (Value (BytesIO (data response) 0))
                    else Returns PyFalse, w2))"
    using inr ne item revs auth by (simp add: get_def Let_def split: prod.splits rpc.splits)
  show "calls (snd (get stub self uid back usr tnt rls clms w)) =
                calls w @ [ListVersionsRequest uid
                  (create_auth_context self (Some (user auth)) (Some (tenant auth))
                     (Some (roles auth)) (Some (claim_keys auth))),
                 GetVersionRequest uid (rev_version (version_list ! nat back)) auth]"
    unfolding eq using revisions_calls [OF revs]
    by (simp add: invoke_eq split: rpc.splits)
qed

text \<open>
  The example of the specification: with the revisions \<^verbatim>\<open>[v2, v1]\<close>, offset 0
  reads \<^verbatim>\<open>v2\<close>, offset 1 reads \<^verbatim>\<open>v1\<close>, and offset 2 returns
  \<^verbatim>\<open>False\<close> after the revision listing alone.
\<close>

theorem get_versions_back_example:
  "get small_service test_session ''f'' 0 None None None None start =
     (Returns (Value (BytesIO ''v2'' 0)),
      \<lparr> server = (),
        calls = [ListVersionsRequest ''f'' (create_auth_context test_session None None None None),
                 GetVersionRequest ''f'' ''v2'' (create_auth_context test_session None None None None)] \<rparr>)
   \<and> get small_service test_session ''f'' 1 None None None None start =
     (Returns (Value (BytesIO ''v1'' 0)),
      \<lparr> server = (),
        calls = [ListVersionsRequest ''f'' (create_auth_context test_session None None None None),
                 GetVersionRequest ''f'' ''v1'' (create_auth_context test_session None None None None)] \<rparr>)
   \<and> get small_service test_session ''f'' 2 None None None None start =
     (Returns PyFalse,
      \<lparr> server = (),
        calls = [ListVersionsRequest ''f'' (create_auth_context test_session None None None None)] \<rparr>)"
proof -
  let ?auth = "create_auth_context test_session None None None None"
  let ?vs = "[\<lparr> rev_version = ''v2'', rev_name = ''f'', rev_user = ''test_user'' \<rparr>,
              \<lparr> rev_version = ''v1'', rev_name = ''f'', rev_user = ''test_user'' \<rparr>]"
  let ?w1 = "\<lparr> server = (), calls = [ListVersionsRequest ''f'' ?auth] \<rparr>"
  have revs: "revisions small_service test_session ''f'' (Some (user ?auth)) (Some (tenant ?auth))
                (Some (roles ?auth)) (Some (claim_keys ?auth)) start = (?vs, ?w1)"
    by (simp add: small_service_revisions test_context test_context_again claim_keys_def start_def)
  have a: "(0::int) \<le> 0" and b: "(0::int) \<le> 1" and c: "(0::int) \<le> 2" by simp_all
  show ?thesis
    using get_versions_back [OF a refl revs] get_versions_back [OF b refl revs]
      get_versions_back [OF c refl revs]
    by (simp add: invoke_eq small_service_def version_of_def test_context)
qed

text \<open>
  Claim C4 says that every call to \<^verbatim>\<open>get\<close> either returns \<^verbatim>\<open>False\<close>
  without a content fetch, when the number of revisions is at most \<open>back\<close>, or sends
  exactly one content fetch for the version at index \<open>back\<close>, offset 0 being the latest
  revision. The guard \<^verbatim>\<open>len(versions) <= back\<close> has no lower bound. With the two
  revisions \<^verbatim>\<open>[v2, v1]\<close> and the offset \<open>-3\<close> the call does neither: the subscript
  raises \<^verbatim>\<open>IndexError\<close> after the revision listing and no content fetch is sent.
  With the offset \<open>-1\<close> the subscript counts from the end and the oldest revision is
  fetched.
\<close>

theorem get_offset_below_range:
  "get small_service test_session ''g'' (- 3) None None None None start =
     (Raises IndexError,
      \<lparr> server = (),
        calls = [ListVersionsRequest ''g'' (create_auth_context test_session None None None None)] \<rparr>)
   \<and> get small_service test_session ''g'' (- 1) None None None None start =
     (Returns (Value (BytesIO ''v1'' 0)),
      \<lparr> server = (),
        calls = [ListVersionsRequest ''g'' (create_auth_context test_session None None None None),
                 GetVersionRequest ''g'' ''v1'' (create_auth_context test_session None None None None)] \<rparr>)"
proof -
  let ?auth = "\<lparr> user = ''test_user'', roles = [''user''], tenant = ''test_tenant'',
                 claims = [(''read'', ''read''), (''write'', ''write'')] \<rparr>"
  let ?w1 = "\<lparr> server = (), calls = [ListVersionsRequest ''g'' ?auth] \<rparr>"
  have revs: "revisions small_service test_session ''g'' (Some ''test_user'') (Some ''test_tenant'')
                (Some [''user'']) (Some [ClaimStr ''read'', ClaimStr ''write'']) start =
                ([\<lparr> rev_version = ''v2'', rev_name = ''g'', rev_user = ''test_user'' \<rparr>,
                  \<lparr> rev_version = ''v1'', rev_name = ''g'', rev_user = ''test_user'' \<rparr>], ?w1)"
    by (simp add: small_service_revisions test_context_again start_def)
  have fetch: "invoke (GetVersion small_service) (GetVersionRequest ''g'' ''v1'' ?auth) ?w1 =
                 (Reply \<lparr> success = True, data = ''v1'' \<rparr>,
                  \<lparr> server = (), calls = [ListVersionsRequest ''g'' ?auth,
                                           GetVersionRequest ''g'' ''v1'' ?auth] \<rparr>)"
    by (simp add: invoke_eq small_service_def version_of_def)
  show ?thesis
    by (simp add: get_def Let_def test_context claim_keys_def revs fetch
          getitem_last_of_two getitem_below_two)
qed

subsection \<open>Raised errors\<close>

text \<open>
  \<^verbatim>\<open>put\<close> with \<^verbatim>\<open>return_open\<close> set raises before any request is sent: the
  world is unchanged.
\<close>

lemma put_return_open:
  "put stub self uid payload True usr tnt rls clms now w =
     (Raises (NotImplementedError ''return_open parameter not supported in gRPC implementation''), w)"
  by (simp add: put_def)

text \<open>
  A timestamp that the platform cannot convert makes \<^verbatim>\<open>get_file_mtime\<close> raise
  after the metadata call.
\<close>

lemma get_file_mtime_raises:
  assumes "invoke (Stat stub) (StatRequest uid (create_auth_context self usr tnt rls clms)) w
             = (Reply response, w1)"
    and "success response"
    and "time_error (info_modified_at (info response)) = Some e"
  shows "get_file_mtime time_error stub self uid usr tnt rls clms w = (Raises e, w1)"
  using assms by (simp add: get_file_mtime_def Let_def fromtimestamp_def)

text \<open>
  A negative offset below minus the number of revisions passes the test
  \<^verbatim>\<open>len(versions) <= back\<close> and the subscript raises.
\<close>

lemma get_raises:
  assumes "revisions stub self uid (Some (user auth)) (Some (tenant auth)) (Some (roles auth))
                 (Some (claim_keys auth)) w = (version_list, w1)"
    and "auth = create_auth_context self usr tnt rls clms"
    and "version_list \<noteq> []" and "back < - int (length version_list)"
  shows "get stub self uid back usr tnt rls clms w = (Raises IndexError, w1)"
  using assms by (simp add: get_def Let_def getitem_below)

text \<open>
  Claim C8 says that \<^verbatim>\<open>put\<close> with \<^verbatim>\<open>return_open\<close> is the single case in
  which an operation raises instead of returning its failure value. With two revisions and
  the offset \<open>-3\<close>, \<^verbatim>\<open>get\<close> raises \<^verbatim>\<open>IndexError\<close> after the revision
  listing, where its documentation promises \<^verbatim>\<open>False\<close>.
\<close>

theorem get_negative_offset_raises:
  "get small_service test_session ''f'' (- 3) None None None None start =
     (Raises IndexError,
      \<lparr> server = (),
        calls = [ListVersionsRequest ''f''
                   \<lparr> user = ''test_user'', roles = [''user''], tenant = ''test_tenant'',
                     claims = [(''read'', ''read''), (''write'', ''write'')] \<rparr>] \<rparr>)"
  by (simp add: get_def Let_def small_service_revisions getitem_def start_def
        create_auth_context_def test_session_def init_def claim_keys_def)

subsection \<open>Moving with a new name\<close>

text \<open>
  Claim C5. For every call to \<^verbatim>\<open>move\<close>: if the move call fails, in the transport
  or by its answer, no rename request is sent and the result is \<^verbatim>\<open>False\<close>; if it
  succeeds and a new name was requested (the argument is neither \<^verbatim>\<open>None\<close> nor
  empty), one rename request for the moved identifier follows and the result is the result
  of that renaming; if it succeeds and no new name was requested, the result is the success
  flag of the move.
\<close>

theorem move_then_rename:
  assumes auth: "auth = create_auth_context self usr tnt rls clms"
    and mv: "invoke (Move stub) (MoveRequest source_uid destination_uid auth) w = (reply, w1)"
  shows "(failed reply \<longrightarrow>
            move stub self source_uid destination_uid new_name usr tnt rls clms w = (False, w1)
            \<and> calls w1 = calls w @ [MoveRequest source_uid destination_uid auth])
       \<and> (\<not> failed reply \<and> truthy new_name \<longrightarrow>
            move stub self source_uid destination_uid new_name usr tnt rls clms w
              = rename stub self source_uid (the new_name) usr tnt rls clms w1
            \<and> calls (snd (move stub self source_uid destination_uid new_name usr tnt rls clms w))
              = calls w @ [MoveRequest source_uid destination_uid auth,
                           RenameRequest source_uid (the new_name) auth])
       \<and> (\<not> failed reply \<and> \<not> truthy new_name \<longrightarrow>
            move stub self source_uid destination_uid new_name usr tnt rls clms w = (True, w1)
            \<and> calls w1 = calls w @ [MoveRequest source_uid destination_uid auth])"
proof (intro conjI impI)
  assume "failed reply"
  then show "move stub self source_uid destination_uid new_name usr tnt rls clms w = (False, w1)"
    using mv auth by (cases reply) (simp_all add: move_def Let_def)
next
  assume ok: "\<not> failed reply \<and> truthy new_name"
  then show eq: "move stub self source_uid destination_uid new_name usr tnt rls clms w
              = rename stub self source_uid (the new_name) usr tnt rls clms w1"
    using mv auth by (cases reply) (simp_all add: move_def Let_def)
  obtain b w2 where rn: "rename stub self source_uid (the new_name) usr tnt rls clms w1 = (b, w2)"
    by (cases "rename stub self source_uid (the new_name) usr tnt rls clms w1")
  show "calls (snd (move stub self source_uid destination_uid new_name usr tnt rls clms w))
              = calls w @ [MoveRequest source_uid destination_uid auth,
                           RenameRequest source_uid (the new_name) auth]"
    unfolding eq using rename_calls [OF rn] invoke_calls [OF mv] rn auth by simp
next
  assume "\<not> failed reply \<and> \<not> truthy new_name"
  then show "move stub self source_uid destination_uid new_name usr tnt rls clms w = (True, w1)"
    using mv auth by (cases reply) (simp_all add: move_def Let_def)
qed (use invoke_calls [OF mv] in simp_all)

theorem move_then_rename_example:
  "move unreachable test_session ''f'' ''d'' (Some ''n'') None None None None start =
     (False, \<lparr> server = (),
        calls = [MoveRequest ''f'' ''d'' (create_auth_context test_session None None None None)] \<rparr>)
   \<and> move small_service test_session ''f'' ''d'' (Some ''n'') None None None None start =
     rename small_service test_session ''f'' ''n'' None None None None
       \<lparr> server = (),
         calls = [MoveRequest ''f'' ''d'' (create_auth_context test_session None None None None)] \<rparr>
   \<and> move small_service test_session ''f'' ''d'' (Some ''n'') None None None None start =
     (False, \<lparr> server = (),
        calls = [MoveRequest ''f'' ''d'' (create_auth_context test_session None None None None),
                 RenameRequest ''f'' ''n'' (create_auth_context test_session None None None None)] \<rparr>)
   \<and> move small_service test_session ''f'' ''d'' None None None None None start =
     (True, \<lparr> server = (),
        calls = [MoveRequest ''f'' ''d'' (create_auth_context test_session None None None None)] \<rparr>)"
proof -
  let ?auth = "create_auth_context test_session None None None None"
  let ?w1 = "\<lparr> server = (), calls = [MoveRequest ''f'' ''d'' ?auth] \<rparr>"
  have down: "invoke (Move unreachable) (MoveRequest ''f'' ''d'' ?auth) start = (RpcError, ?w1)"
    by (simp add: invoke_eq unreachable_def start_def)
  have up: "invoke (Move small_service) (MoveRequest ''f'' ''d'' ?auth) start
              = (Reply \<lparr> success = True \<rparr>, ?w1)"
    by (simp add: invoke_eq small_service_def start_def)
  have rn: "rename small_service test_session ''f'' ''n'' None None None None ?w1
              = (False, \<lparr> server = (), calls = [MoveRequest ''f'' ''d'' ?auth,
                                                   RenameRequest ''f'' ''n'' ?auth] \<rparr>)"
    by (simp add: rename_def Let_def invoke_eq small_service_def)
  show ?thesis
    using move_then_rename [OF refl down, of "Some ''n''"]
      move_then_rename [OF refl up, of "Some ''n''"]
      move_then_rename [OF refl up, of None] rn
    by simp
qed

subsection \<open>Removing\<close>

text \<open>
  Claim C6. For every call to \<^verbatim>\<open>remove\<close>: when the metadata call fails in the
  transport, the result is \<^verbatim>\<open>False\<close> and no removal request is sent; when it
  succeeds and reports a directory, the directory removal is sent; when it succeeds and
  reports a regular file, the file removal is sent. In both cases the result is the success
  flag of the removal, or \<^verbatim>\<open>False\<close> when its transport fails.
\<close>

theorem remove_by_type:
  assumes auth: "auth = create_auth_context self usr tnt rls clms"
    and st: "invoke (Stat stub) (StatRequest uid auth) w = (stat, w1)"
  shows "(stat = RpcError \<longrightarrow>
            remove stub self uid usr tnt rls clms w = (False, w1)
            \<and> calls w1 = calls w @ [StatRequest uid auth])
       \<and> (\<forall>info_resp. stat = Reply info_resp \<and> success info_resp
              \<and> info_type (info info_resp) = DIRECTORY \<longrightarrow>
            remove stub self uid usr tnt rls clms w =
              (case invoke (RemoveDirectory stub) (RemoveDirectoryRequest uid auth) w1 of
                 (RpcError, w2) \<Rightarrow> (False, w2)
               | (Reply response, w2) \<Rightarrow> (success response, w2))
            \<and> calls (snd (remove stub self uid usr tnt rls clms w)) =
                calls w @ [StatRequest uid auth, RemoveDirectoryRequest uid auth])
       \<and> (\<forall>info_resp. stat = Reply info_resp \<and> success info_resp
              \<and> info_type (info info_resp) = REGULAR_FILE \<longrightarrow>
            remove stub self uid usr tnt rls clms w =
              (case invoke (RemoveFile stub) (RemoveFileRequest uid auth) w1 of
                 (RpcError, w2) \<Rightarrow> (False, w2)
               | (Reply response, w2) \<Rightarrow> (success response, w2))
            \<and> calls (snd (remove stub self uid usr tnt rls clms w)) =
                calls w @ [StatRequest uid auth, RemoveFileRequest uid auth])"
proof (intro conjI impI allI)
  assume "stat = RpcError"
  then show "remove stub self uid usr tnt rls clms w = (False, w1)"
    using st auth by (simp add: remove_def Let_def)
  show "calls w1 = calls w @ [StatRequest uid auth]"
    using invoke_calls [OF st] .
next
  fix info_resp
  assume d: "stat = Reply info_resp \<and> success info_resp \<and> info_type (info info_resp) = DIRECTORY"
  then show eq: "remove stub self uid usr tnt rls clms w =
              (case invoke (RemoveDirectory stub) (RemoveDirectoryRequest uid auth) w1 of
                 (RpcError, w2) \<Rightarrow> (False, w2)
               | (Reply response, w2) \<Rightarrow> (success response, w2))"
    using st auth by (simp add: remove_def Let_def)
  show "calls (snd (remove stub self uid usr tnt rls clms w)) =
                calls w @ [StatRequest uid auth, RemoveDirectoryRequest uid auth]"
    unfolding eq using invoke_calls [OF st] by (simp add: invoke_eq split: rpc.splits)
next
  fix info_resp
  assume f: "stat = Reply info_resp \<and> success info_resp \<and> info_type (info info_resp) = REGULAR_FILE"
  then show eq: "remove stub self uid usr tnt rls clms w =
              (case invoke (RemoveFile stub) (RemoveFileRequest uid auth) w1 of
                 (RpcError, w2) \<Rightarrow> (False, w2)
               | (Reply response, w2) \<Rightarrow> (success response, w2))"
    using st auth by (simp add: remove_def Let_def)
  show "calls (snd (remove stub self uid usr tnt rls clms w)) =
                calls w @ [StatRequest uid auth, RemoveFileRequest uid auth]"
    unfolding eq using invoke_calls [OF st] by (simp add: invoke_eq split: rpc.splits)
qed

theorem remove_by_type_example:
  "remove unreachable test_session ''f'' None None None None start =
     (False, \<lparr> server = (),
        calls = [StatRequest ''f'' (create_auth_context test_session None None None None)] \<rparr>)
   \<and> remove small_service test_session ''d'' None None None None start =
     (True, \<lparr> server = (),
        calls = [StatRequest ''d'' (create_auth_context test_session None None None None),
                 RemoveDirectoryRequest ''d'' (create_auth_context test_session None None None None)] \<rparr>)
   \<and> remove small_service test_session ''f'' None None None None start =
     (True, \<lparr> server = (),
        calls = [StatRequest ''f'' (create_auth_context test_session None None None None),
                 RemoveFileRequest ''f'' (create_auth_context test_session None None None None)] \<rparr>)"
proof -
  let ?auth = "create_auth_context test_session None None None None"
  have down: "invoke (Stat unreachable) (StatRequest ''f'' ?auth) start
                = (RpcError, \<lparr> server = (), calls = [StatRequest ''f'' ?auth] \<rparr>)"
    by (simp add: invoke_eq unreachable_def start_def)
  have d: "invoke (Stat small_service) (StatRequest ''d'' ?auth) start
             = (Reply \<lparr> success = True,
                         info = \<lparr> info_name = ''d'', info_type = DIRECTORY, info_modified_at = 0 \<rparr> \<rparr>,
                \<lparr> server = (), calls = [StatRequest ''d'' ?auth] \<rparr>)"
    by (simp add: invoke_eq small_service_def stat_of_def start_def)
  have f: "invoke (Stat small_service) (StatRequest ''f'' ?auth) start
             = (Reply \<lparr> success = True,
                         info = \<lparr> info_name = ''f'', info_type = REGULAR_FILE, info_modified_at = 0 \<rparr> \<rparr>,
                \<lparr> server = (), calls = [StatRequest ''f'' ?auth] \<rparr>)"
    by (simp add: invoke_eq small_service_def stat_of_def start_def)
  show ?thesis
    using remove_by_type [OF refl down] remove_by_type [OF refl d] remove_by_type [OF refl f]
    by (simp add: invoke_eq small_service_def)
qed

text \<open>
  Claim C9. When the metadata call is answered with the success flag false,
  \<^verbatim>\<open>remove\<close> does not stop: it sends the file removal and returns the success flag
  of that call (\<^verbatim>\<open>False\<close> when the transport of the removal fails).
\<close>

theorem remove_after_refused_stat:
  assumes auth: "auth = create_auth_context self usr tnt rls clms"
    and st: "invoke (Stat stub) (StatRequest uid auth) w = (Reply info_resp, w1)"
    and refused: "\<not> success info_resp"
    and rm: "invoke (RemoveFile stub) (RemoveFileRequest uid auth) w1 = (removal, w2)"
  shows "remove stub self uid usr tnt rls clms w =
           ((case removal of RpcError \<Rightarrow> False | Reply response \<Rightarrow> success response), w2)
       \<and> calls w2 = calls w @ [StatRequest uid auth, RemoveFileRequest uid auth]"
proof
  show "remove stub self uid usr tnt rls clms w =
           ((case removal of RpcError \<Rightarrow> False | Reply response \<Rightarrow> success response), w2)"
    using st refused rm auth by (simp add: remove_def Let_def split: rpc.splits)
  show "calls w2 = calls w @ [StatRequest uid auth, RemoveFileRequest uid auth]"
    using invoke_calls [OF st] invoke_calls [OF rm] by simp
qed

theorem remove_after_refused_stat_example:
  "remove small_service test_session ''gone'' None None None None start =
     (True, \<lparr> server = (),
        calls = [StatRequest ''gone'' (create_auth_context test_session None None None None),
                 RemoveFileRequest ''gone'' (create_auth_context test_session None None None None)] \<rparr>)"
proof -
  let ?auth = "create_auth_context test_session None None None None"
  let ?info = "\<lparr> success = False,
                 info = \<lparr> info_name = ''gone'', info_type = REGULAR_FILE, info_modified_at = 0 \<rparr> \<rparr>"
  let ?w1 = "\<lparr> server = (), calls = [StatRequest ''gone'' ?auth] \<rparr>"
  let ?w2 = "\<lparr> server = (), calls = [StatRequest ''gone'' ?auth, RemoveFileRequest ''gone'' ?auth] \<rparr>"
  have st: "invoke (Stat small_service) (StatRequest ''gone'' ?auth) start = (Reply ?info, ?w1)"
    by (simp add: invoke_eq small_service_def stat_of_def start_def)
  have refused: "\<not> success ?info" by simp
  have rm: "invoke (RemoveFile small_service) (RemoveFileRequest ''gone'' ?auth) ?w1
              = (Reply \<lparr> success = True \<rparr>, ?w2)"
    by (simp add: invoke_eq small_service_def)
  show ?thesis
    using remove_after_refused_stat [OF refl st refused rm] by simp
qed

subsection \<open>Failure values of the listing operations\<close>

text \<open>
  Claim C7 says that \<^verbatim>\<open>dir\<close>, \<^verbatim>\<open>revisions\<close> and \<^verbatim>\<open>file_name\<close>
  return an empty sequence when the remote call fails. \<^verbatim>\<open>dir\<close> returns
  \<^verbatim>\<open>False\<close>, as its documentation says, not an empty list.
\<close>

theorem dir_failure_counterexample:
  "fst (dir converts_all unreachable test_session ''d'' False None None None None start)
     = Returns PyFalse
   \<and> fst (dir converts_all unreachable test_session ''d'' False None None None None start)
     \<noteq> Returns (Value [])"
  by (simp add: dir_def Let_def invoke_eq unreachable_def)

text \<open>
  Claim C7, amended. When the remote call fails in the transport or is answered with the
  success flag false, \<^verbatim>\<open>revisions\<close> and \<^verbatim>\<open>file_name\<close> return the empty
  list and \<^verbatim>\<open>dir\<close>, with or without deleted entries, returns \<^verbatim>\<open>False\<close>;
  nothing is raised and no further request is sent.
\<close>

theorem listing_failure_values:
  assumes auth: "auth = create_auth_context self usr tnt rls clms"
  shows "(failed (fst (invoke (ListVersions stub) (ListVersionsRequest uid auth) w)) \<longrightarrow>
            revisions stub self uid usr tnt rls clms w =
              ([], snd (invoke (ListVersions stub) (ListVersionsRequest uid auth) w)))
       \<and> (failed (fst (invoke (Stat stub) (StatRequest uid auth) w)) \<longrightarrow>
            file_name stub self uid usr tnt rls clms w =
              ([], snd (invoke (Stat stub) (StatRequest uid auth) w)))
       \<and> (failed (fst (invoke (ListDirectory stub) (ListDirectoryRequest uid auth) w)) \<longrightarrow>
            dir time_error stub self uid False usr tnt rls clms w =
              (Returns PyFalse, snd (invoke (ListDirectory stub) (ListDirectoryRequest uid auth) w)))
       \<and> (failed (fst (invoke (ListDirectoryWithDeleted stub)
                          (ListDirectoryWithDeletedRequest uid auth) w)) \<longrightarrow>
            dir time_error stub self uid True usr tnt rls clms w =
              (Returns PyFalse, snd (invoke (ListDirectoryWithDeleted stub)
                               (ListDirectoryWithDeletedRequest uid auth) w)))"
proof (intro conjI impI)
  assume "failed (fst (invoke (ListVersions stub) (ListVersionsRequest uid auth) w))"
  then show "revisions stub self uid usr tnt rls clms w =
              ([], snd (invoke (ListVersions stub) (ListVersionsRequest uid auth) w))"
    unfolding auth
    by (cases "invoke (ListVersions stub)
                 (ListVersionsRequest uid (create_auth_context self usr tnt rls clms)) w")
       (auto simp: revisions_def Let_def split: rpc.splits)
next
  assume "failed (fst (invoke (Stat stub) (StatRequest uid auth) w))"
  then show "file_name stub self uid usr tnt rls clms w =
              ([], snd (invoke (Stat stub) (StatRequest uid auth) w))"
    unfolding auth
    by (cases "invoke (Stat stub) (StatRequest uid (create_auth_context self usr tnt rls clms)) w")
       (auto simp: file_name_def Let_def split: rpc.splits)
next
  assume "failed (fst (invoke (ListDirectory stub) (ListDirectoryRequest uid auth) w))"
  then show "dir time_error stub self uid False usr tnt rls clms w =
              (Returns PyFalse, snd (invoke (ListDirectory stub) (ListDirectoryRequest uid auth) w))"
    unfolding auth
    by (cases "invoke (ListDirectory stub)
                 (ListDirectoryRequest uid (create_auth_context self usr tnt rls clms)) w")
       (auto simp: dir_def Let_def split: rpc.splits)
next
  assume "failed (fst (invoke (ListDirectoryWithDeleted stub)
                          (ListDirectoryWithDeletedRequest uid auth) w))"
  then show "dir time_error stub self uid True usr tnt rls clms w =
              (Returns PyFalse, snd (invoke (ListDirectoryWithDeleted stub)
                               (ListDirectoryWithDeletedRequest uid auth) w))"
    unfolding auth
    by (cases "invoke (ListDirectoryWithDeleted stub)
                 (ListDirectoryWithDeletedRequest uid (create_auth_context self usr tnt rls clms)) w")
       (auto simp: dir_def Let_def split: rpc.splits)
qed

theorem listing_failure_values_example:
  "failed (fst (invoke (ListVersions unreachable)
      (ListVersionsRequest ''f'' (create_auth_context test_session None None None None)) start))
   \<and> fst (revisions unreachable test_session ''f'' None None None None start) = []
   \<and> failed (fst (invoke (Stat small_service)
      (StatRequest ''gone'' (create_auth_context test_session None None None None)) start))
   \<and> fst (file_name small_service test_session ''gone'' None None None None start) = []
   \<and> failed (fst (invoke (ListDirectory small_service)
      (ListDirectoryRequest ''d'' (create_auth_context test_session None None None None)) start))
   \<and> fst (dir converts_all small_service test_session ''d'' False None None None None start)
       = Returns PyFalse
   \<and> failed (fst (invoke (ListDirectoryWithDeleted unreachable)
      (ListDirectoryWithDeletedRequest ''d'' (create_auth_context test_session None None None None)) start))
   \<and> fst (dir converts_all unreachable test_session ''d'' True None None None None start)
       = Returns PyFalse"
proof -
  let ?auth = "create_auth_context test_session None None None None"
  have a: "failed (fst (invoke (ListVersions unreachable) (ListVersionsRequest ''f'' ?auth) start))"
    by (simp add: invoke_eq unreachable_def)
  have b: "failed (fst (invoke (Stat small_service) (StatRequest ''gone'' ?auth) start))"
    by (simp add: invoke_eq small_service_def stat_of_def)
  have c: "failed (fst (invoke (ListDirectory small_service) (ListDirectoryRequest ''d'' ?auth) start))"
    by (simp add: invoke_eq small_service_def)
  have d: "failed (fst (invoke (ListDirectoryWithDeleted unreachable)
              (ListDirectoryWithDeletedRequest ''d'' ?auth) start))"
    by (simp add: invoke_eq unreachable_def)
  show ?thesis
    using a b c d
      listing_failure_values [OF refl, where stub = unreachable and uid = "''f''"
        and self = test_session and usr = None and tnt = None and rls = None and clms = None
        and w = start and time_error = converts_all]
      listing_failure_values [OF refl, where stub = small_service and uid = "''gone''"
        and self = test_session and usr = None and tnt = None and rls = None and clms = None
        and w = start and time_error = converts_all]
      listing_failure_values [OF refl, where stub = small_service and uid = "''d''"
        and self = test_session and usr = None and tnt = None and rls = None and clms = None
        and w = start and time_error = converts_all]
      listing_failure_values [OF refl, where stub = unreachable and uid = "''d''"
        and self = test_session and usr = None and tnt = None and rls = None and clms = None
        and w = start and time_error = converts_all]
    by simp
qed

end
